theory Spec2Isabelle
  imports Main
begin

section \<open>The API server (us-api/server.js)\<close>

subsection \<open>Configuration\<close>

text \<open>
  The constants of server.js, lines 9-28, after the \<^verbatim>\<open>process.env.X || default\<close>
  fallbacks have been applied. They are fixed when the process starts.
\<close>

record config =
  KEYCLOAK_URL :: string
  KEYCLOAK_EXTERNAL_URL :: string
  REALM :: string
  CORS_ORIGIN :: string
  CROSS_KEYCLOAK_URL :: string
  CROSS_KEYCLOAK_EXTERNAL_URL :: string
  CROSS_REALM :: string
  CROSS_CORS_ORIGIN :: string

text \<open>The values used when no environment variable is set.\<close>

definition default_config :: config where
  "default_config =
     \<lparr> KEYCLOAK_URL = ''http://localhost:8080'',
       KEYCLOAK_EXTERNAL_URL = ''http://localhost:8080'',
       REALM = ''us-realm'',
       CORS_ORIGIN = ''http://localhost:3000'',
       CROSS_KEYCLOAK_URL = ''http://localhost:8081'',
       CROSS_KEYCLOAK_EXTERNAL_URL = ''http://localhost:8081'',
       CROSS_REALM = ''eu-realm'',
       CROSS_CORS_ORIGIN = ''http://localhost:3001'' \<rparr>"

text \<open>\<^verbatim>\<open>ACCEPTED_ISSUERS\<close> (lines 81-86): four template strings, in this order.\<close>

definition ACCEPTED_ISSUERS :: "config \<Rightarrow> string list" where
  "ACCEPTED_ISSUERS cfg =
     [ KEYCLOAK_URL cfg @ ''/realms/'' @ REALM cfg,
       KEYCLOAK_EXTERNAL_URL cfg @ ''/realms/'' @ REALM cfg,
       CROSS_KEYCLOAK_URL cfg @ ''/realms/'' @ CROSS_REALM cfg,
       CROSS_KEYCLOAK_EXTERNAL_URL cfg @ ''/realms/'' @ CROSS_REALM cfg ]"

text \<open>\<^verbatim>\<open>allowedOrigins\<close> (line 91).\<close>

definition allowedOrigins :: "config \<Rightarrow> string list" where
  "allowedOrigins cfg = [CORS_ORIGIN cfg, CROSS_CORS_ORIGIN cfg]"

subsection \<open>JavaScript helpers\<close>

text \<open>
  A header that is absent reads as \<^verbatim>\<open>undefined\<close>: such values are options.
  \<^verbatim>\<open>!s\<close> holds of \<^verbatim>\<open>undefined\<close> and of the empty string, and of no other
  string.
\<close>

definition startsWith :: "string \<Rightarrow> string \<Rightarrow> bool" where
  "startsWith s p = (take (length p) s = p)"

text \<open>
  \<^verbatim>\<open>s.split(c)\<close> for a separator of one character: the pieces between the
  separators, empty pieces included; the empty string splits into one empty piece.
\<close>

fun split_on :: "char \<Rightarrow> string \<Rightarrow> string list" where
  "split_on c [] = [[]]"
| "split_on c (x # xs) =
     (if x = c then [] # split_on c xs
      else (case split_on c xs of
              [] \<Rightarrow> [[x]]
            | w # ws \<Rightarrow> (x # w) # ws))"

text \<open>\<^verbatim>\<open>xs[i]\<close>: \<^verbatim>\<open>undefined\<close> out of range.\<close>

definition at_index :: "'a list \<Rightarrow> nat \<Rightarrow> 'a option" where
  "at_index xs i = (if i < length xs then Some (xs ! i) else None)"

text \<open>\<^verbatim>\<open>String(array)\<close>, which string concatenation applies to an array: the
  elements joined by commas.\<close>

fun join_comma :: "string list \<Rightarrow> string" where
  "join_comma [] = []"
| "join_comma [x] = x"
| "join_comma (x # y # ys) = x @ '','' @ join_comma (y # ys)"

text \<open>\<^verbatim>\<open>s.trim() !== ''\<close> over the ASCII white space characters.\<close>

definition is_space :: "char \<Rightarrow> bool" where
  "is_space c = (c \<in> set [CHR '' '', CHR 0x09, CHR 0x0A, CHR 0x0B, CHR 0x0C, CHR 0x0D])"

definition trim_nonempty :: "string \<Rightarrow> bool" where
  "trim_nonempty s = (\<exists>c \<in> set s. \<not> is_space c)"

subsection \<open>Tokens\<close>

text \<open>
  The values a header field or a claim can hold, as far as the checks tell them apart:
  absent, a string, a number (NumericDate claims are whole seconds), anything else.
\<close>

datatype json = JUndefined | JString string | JNumber int | JOther

record jwt_header =
  alg :: json
  kid :: json

record jwt_payload =
  iss :: json
  exp :: json
  nbf :: json
  preferred_username :: json

record decoded_token =
  header :: jwt_header
  payload :: jwt_payload

subsection \<open>Key lookup: getKey (lines 54-71)\<close>

text \<open>
  A JWKS client answers \<^verbatim>\<open>getSigningKey(kid, cb)\<close> by calling \<^verbatim>\<open>cb(err, key)\<close>:
  the error's message if there is an error, and the key object (of which only
  \<^verbatim>\<open>getPublicKey()\<close> is used) if there is a key. The two clients are created by the
  jwks-rsa package from the URLs of lines 33-46; what they answer is a parameter here.
\<close>

type_synonym jwks_client = "json \<Rightarrow> string option \<times> string option"

datatype region = Local | Cross

text \<open>
  What \<^verbatim>\<open>getKey\<close> does with its callback: \<^verbatim>\<open>callback(err)\<close>,
  \<^verbatim>\<open>callback(null, publicKey)\<close>, or neither, when \<^verbatim>\<open>crossKey.getPublicKey()\<close> is
  evaluated on an undefined \<^verbatim>\<open>crossKey\<close> and throws a TypeError.
\<close>

datatype key_result = KeyError string | KeyFound string | KeyThrew

text \<open>
  The result, and the clients that were asked, in order, each with the kid it was asked
  for.
\<close>

definition getKey ::
  "jwks_client \<Rightarrow> jwks_client \<Rightarrow> jwt_header \<Rightarrow> key_result \<times> (region \<times> json) list"
where
  "getKey localJwks crossJwks hdr =
     (case localJwks (kid hdr) of
        (None, Some key) \<Rightarrow> (KeyFound key, [(Local, kid hdr)])
      | _ \<Rightarrow>
         (case crossJwks (kid hdr) of
            (Some crossErr, _) \<Rightarrow> (KeyError crossErr, [(Local, kid hdr), (Cross, kid hdr)])
          | (None, None) \<Rightarrow> (KeyThrew, [(Local, kid hdr), (Cross, kid hdr)])
          | (None, Some crossKey) \<Rightarrow>
              (KeyFound crossKey, [(Local, kid hdr), (Cross, kid hdr)])))"

subsection \<open>Token verification: the jsonwebtoken package\<close>

text \<open>
  \<^verbatim>\<open>jwt.verify\<close> is the function of the jsonwebtoken package that server.js
  requires on line 3; the package is a dependency and not a file of the repository.
  The definition below follows the order of the checks of that function for the
  options that \<^verbatim>\<open>authenticate\<close> passes. Parsing and cryptography stay
  parameters: \<^verbatim>\<open>decode\<close> (the token's header and payload, \<^verbatim>\<open>null\<close>, or an
  exception with its message) and \<^verbatim>\<open>jws_verify\<close> (the check of the key's type and
  of the signature under the header's algorithm: an exception with its message, or
  whether the signature is valid).
\<close>

datatype decode_result = DecodeThrew string | DecodeNull | Decoded decoded_token

record crypto =
  decode :: "string \<Rightarrow> decode_result"
  jws_verify :: "string \<Rightarrow> json \<Rightarrow> string \<Rightarrow> string + bool"
  clockTimestamp :: int

text \<open>
  The options object. \<^verbatim>\<open>authenticate\<close> sets \<^verbatim>\<open>algorithms\<close> and \<^verbatim>\<open>issuer\<close>
  only; \<^verbatim>\<open>clockTolerance\<close>, \<^verbatim>\<open>ignoreExpiration\<close> and \<^verbatim>\<open>ignoreNotBefore\<close>
  are read by the checks below and are left unset by it. The options it never sets and
  no check below reads (audience, subject, jwtid, nonce, maxAge) are left out.
\<close>

record verify_options =
  algorithms :: "string list"
  issuer :: "string list"
  clockTolerance :: "int option"
  ignoreExpiration :: bool
  ignoreNotBefore :: bool

text \<open>
  The outcome passed to the callback of \<^verbatim>\<open>jwt.verify\<close>: \<^verbatim>\<open>done(err)\<close> with the
  error's message, \<^verbatim>\<open>done(null, payload)\<close>, or no call at all when the key
  callback threw.
\<close>

datatype verify_result = VerifyError string | Verified jwt_payload | VerifyThrew

definition tolerance :: "verify_options \<Rightarrow> int" where
  "tolerance opts = (case clockTolerance opts of None \<Rightarrow> 0 | Some t \<Rightarrow> t)"

text \<open>The checks on the claims, after the signature has been found valid.\<close>

definition check_claims :: "int \<Rightarrow> verify_options \<Rightarrow> jwt_payload \<Rightarrow> verify_result" where
  "check_claims now opts p =
     (if nbf p \<noteq> JUndefined \<and> \<not> ignoreNotBefore opts
         \<and> (case nbf p of JNumber _ \<Rightarrow> False | _ \<Rightarrow> True)
      then VerifyError ''invalid nbf value''
      else if nbf p \<noteq> JUndefined \<and> \<not> ignoreNotBefore opts
         \<and> (case nbf p of JNumber n \<Rightarrow> n > now + tolerance opts | _ \<Rightarrow> False)
      then VerifyError ''jwt not active''
      else if exp p \<noteq> JUndefined \<and> \<not> ignoreExpiration opts
         \<and> (case exp p of JNumber _ \<Rightarrow> False | _ \<Rightarrow> True)
      then VerifyError ''invalid exp value''
      else if exp p \<noteq> JUndefined \<and> \<not> ignoreExpiration opts
         \<and> (case exp p of JNumber e \<Rightarrow> now \<ge> e + tolerance opts | _ \<Rightarrow> False)
      then VerifyError ''jwt expired''
      else if (case iss p of JString i \<Rightarrow> i \<notin> set (issuer opts) | _ \<Rightarrow> True)
      then VerifyError (''jwt issuer invalid. expected: '' @ join_comma (issuer opts))
      else Verified p)"

text \<open>
  The checks between the key callback's answer and the claims. The answer
  \<^verbatim>\<open>Verified\<close> of this stage says that the signature has been found valid.
\<close>

definition check_signature ::
  "crypto \<Rightarrow> verify_options \<Rightarrow> string \<Rightarrow> string list \<Rightarrow> decoded_token \<Rightarrow> string
     \<Rightarrow> verify_result"
where
  "check_signature cr opts jwtString parts tok secretOrPublicKey =
     (let hasSignature = trim_nonempty (parts ! 2) in
      if \<not> hasSignature \<and> secretOrPublicKey \<noteq> []
      then VerifyError ''jwt signature is required''
      else if hasSignature \<and> secretOrPublicKey = []
      then VerifyError ''secret or public key must be provided''
      else if (case alg (header tok) of
                 JString a \<Rightarrow> a \<notin> set (algorithms opts)
               | _ \<Rightarrow> True)
      then VerifyError ''invalid algorithm''
      else (case jws_verify cr jwtString (alg (header tok)) secretOrPublicKey of
              Inl e \<Rightarrow> VerifyError e
            | Inr False \<Rightarrow> VerifyError ''invalid signature''
            | Inr True \<Rightarrow> Verified (payload tok)))"

text \<open>
  Everything \<^verbatim>\<open>jwt.verify\<close> does before it looks at the claims, with the key
  lookups made on the way. \<^verbatim>\<open>getSecret\<close> is called after the token has been split
  and decoded, and before every other check.
\<close>

definition signature_stage ::
  "crypto \<Rightarrow> string option \<Rightarrow> (jwt_header \<Rightarrow> key_result \<times> (region \<times> json) list)
     \<Rightarrow> verify_options \<Rightarrow> verify_result \<times> (region \<times> json) list"
where
  "signature_stage cr jwt getSecret opts =
     (case jwt of
        None \<Rightarrow> (VerifyError ''jwt must be provided'', [])
      | Some jwtString \<Rightarrow>
         if jwtString = [] then (VerifyError ''jwt must be provided'', [])
         else let parts = split_on CHR ''.'' jwtString in
           if length parts \<noteq> 3 then (VerifyError ''jwt malformed'', [])
           else (case decode cr jwtString of
                   DecodeThrew e \<Rightarrow> (VerifyError e, [])
                 | DecodeNull \<Rightarrow> (VerifyError ''invalid token'', [])
                 | Decoded tok \<Rightarrow>
                    (case getSecret (header tok) of
                       (KeyThrew, lookups) \<Rightarrow> (VerifyThrew, lookups)
                     | (KeyError e, lookups) \<Rightarrow>
                        (VerifyError (''error in secret or public key callback: '' @ e),
                         lookups)
                     | (KeyFound k, lookups) \<Rightarrow>
                        (check_signature cr opts jwtString parts tok k, lookups))))"

text \<open>\<^verbatim>\<open>jwt.verify(token, getSecret, options, done)\<close>: the two stages in turn.\<close>

definition jwt_verify ::
  "crypto \<Rightarrow> string option \<Rightarrow> (jwt_header \<Rightarrow> key_result \<times> (region \<times> json) list)
     \<Rightarrow> verify_options \<Rightarrow> verify_result \<times> (region \<times> json) list"
where
  "jwt_verify cr jwt getSecret opts =
     (case signature_stage cr jwt getSecret opts of
        (Verified p, lookups) \<Rightarrow> (check_claims (clockTimestamp cr) opts p, lookups)
      | (r, lookups) \<Rightarrow> (r, lookups))"

subsection \<open>The authentication gate: authenticate (lines 110-139)\<close>

record request =
  origin :: "string option"
  authorization :: "string option"

text \<open>
  What the gate does with a request: \<^verbatim>\<open>res.status(s).json(body)\<close> with the body's
  fields in order, \<^verbatim>\<open>next()\<close> with the decoded payload stored in \<^verbatim>\<open>req.user\<close>, or
  nothing at all when the key callback threw.
\<close>

datatype response =
    Respond nat "(string \<times> string) list"
  | Next jwt_payload
  | NoResponse

text \<open>What the gate did on the way: the call of the verifier, and the key lookups.\<close>

datatype event = VerifyCalled "string option" | KeyLookup region json

record server =
  cfg :: config
  localJwks :: jwks_client
  crossJwks :: jwks_client
  lib :: crypto

text \<open>The options object of lines 123-127.\<close>

definition gate_options :: "config \<Rightarrow> verify_options" where
  "gate_options c =
     \<lparr> algorithms = [''RS256''],
       issuer = ACCEPTED_ISSUERS c,
       clockTolerance = None,
       ignoreExpiration = False,
       ignoreNotBefore = False \<rparr>"

text \<open>The call of lines 120-127: the token verifier of this server.\<close>

definition verify_token :: "server \<Rightarrow> string option \<Rightarrow> verify_result \<times> (region \<times> json) list"
where
  "verify_token srv jwt =
     jwt_verify (lib srv) jwt (getKey (localJwks srv) (crossJwks srv)) (gate_options (cfg srv))"

definition authenticate :: "server \<Rightarrow> request \<Rightarrow> response \<times> event list" where
  "authenticate srv req =
     (case authorization req of
        None \<Rightarrow> (Respond 401 [(''error'', ''Missing or invalid Authorization header'')], [])
      | Some authHeader \<Rightarrow>
         if authHeader = [] \<or> \<not> startsWith authHeader ''Bearer ''
         then (Respond 401 [(''error'', ''Missing or invalid Authorization header'')], [])
         else
           let jwt = at_index (split_on CHR '' '' authHeader) 1;
               trace = VerifyCalled jwt # map (\<lambda>(g, k). KeyLookup g k) (snd (verify_token srv jwt))
           in (case fst (verify_token srv jwt) of
                 VerifyError message \<Rightarrow>
                   (Respond 401 [(''error'', ''Invalid token''), (''detail'', message)], trace)
               | Verified decoded \<Rightarrow> (Next decoded, trace)
               | VerifyThrew \<Rightarrow> (NoResponse, trace)))"

subsection \<open>The cross-origin check (lines 91-105)\<close>

text \<open>
  The \<^verbatim>\<open>origin\<close> callback given to the cors middleware: \<^verbatim>\<open>cb(null, true)\<close> or
  \<^verbatim>\<open>cb(new Error(...))\<close> with the error's message.
\<close>

definition cors_origin :: "config \<Rightarrow> string option \<Rightarrow> string + bool" where
  "cors_origin c orig =
     (case orig of
        None \<Rightarrow> Inr True
      | Some s \<Rightarrow>
         if s = [] \<or> s \<in> set (allowedOrigins c) then Inr True
         else Inl (''CORS: origin '' @ s @ '' not allowed''))"

text \<open>
  A request to a protected route (\<^verbatim>\<open>/api/userinfo\<close>, \<^verbatim>\<open>/api/data\<close>). The cors
  middleware is registered first (line 93) and is given the request's Origin header;
  when the callback answers with an error the middleware passes it to \<^verbatim>\<open>next(err)\<close>,
  which ends the chain in the framework's error handler. Otherwise the chain goes on
  to \<^verbatim>\<open>authenticate\<close>.
\<close>

datatype outcome = OriginError string | Gate response

definition protected_route :: "server \<Rightarrow> request \<Rightarrow> outcome \<times> event list" where
  "protected_route srv req =
     (case cors_origin (cfg srv) (origin req) of
        Inl e \<Rightarrow> (OriginError e, [])
      | Inr _ \<Rightarrow> (Gate (fst (authenticate srv req)), snd (authenticate srv req)))"

subsection \<open>A server to compute with\<close>

text \<open>
  The default configuration, one key per region, a clock at second 1000, and a handful
  of tokens: one of each region, one of a foreign issuer, one that expired a second
  ago, and two under other algorithms. Every signature counts as valid, so that a token
  is turned away by the other checks only.
\<close>

definition example_token :: "string \<Rightarrow> string \<Rightarrow> string \<Rightarrow> int \<Rightarrow> decoded_token" where
  "example_token a k i e =
     \<lparr> header = \<lparr> alg = JString a, kid = JString k \<rparr>,
       payload = \<lparr> iss = JString i, exp = JNumber e, nbf = JUndefined,
                   preferred_username = JString ''alice'' \<rparr> \<rparr>"

definition example_decode :: "string \<Rightarrow> decode_result" where
  "example_decode s =
     (if s = ''us.b.c''
      then Decoded (example_token ''RS256'' ''k1'' ''http://localhost:8080/realms/us-realm'' 2000)
      else if s = ''eu.b.c''
      then Decoded (example_token ''RS256'' ''k2'' ''http://localhost:8081/realms/eu-realm'' 2000)
      else if s = ''evil.b.c''
      then Decoded (example_token ''RS256'' ''k1'' ''https://evil.example/realms/us-realm'' 2000)
      else if s = ''old.b.c''
      then Decoded (example_token ''RS256'' ''k1'' ''http://localhost:8080/realms/us-realm'' 999)
      else if s = ''hs.b.c''
      then Decoded (example_token ''HS256'' ''k1'' ''http://localhost:8080/realms/us-realm'' 2000)
      else if s = ''none.b.''
      then Decoded (example_token ''none'' ''k9'' ''http://localhost:8080/realms/us-realm'' 2000)
      else DecodeNull)"

definition example_local :: jwks_client where
  "example_local k =
     (if k = JString ''k1'' then (None, Some ''PEM-US'')
      else (Some ''Unable to find a signing key that matches'', None))"

definition example_cross :: jwks_client where
  "example_cross k =
     (if k = JString ''k2'' then (None, Some ''PEM-EU'')
      else (Some ''Unable to find a signing key that matches'', None))"

definition example_server :: server where
  "example_server =
     \<lparr> cfg = default_config,
       localJwks = example_local,
       crossJwks = example_cross,
       lib = \<lparr> decode = example_decode,
               jws_verify = (\<lambda>s a k. Inr True),
               clockTimestamp = 1000 \<rparr> \<rparr>"

text \<open>
  The same server behind a reverse proxy, where the four issuer URLs differ, with a
  token of the fourth issuer, a token of a foreign issuer, and a token of a foreign
  issuer that expired a second ago.
\<close>

definition proxied_config :: config where
  "proxied_config =
     \<lparr> KEYCLOAK_URL = ''http://keycloak-us:8080'',
       KEYCLOAK_EXTERNAL_URL = ''http://localhost:8080'',
       REALM = ''us-realm'',
       CORS_ORIGIN = ''http://localhost:3000'',
       CROSS_KEYCLOAK_URL = ''http://keycloak-eu:8080'',
       CROSS_KEYCLOAK_EXTERNAL_URL = ''http://localhost:8081'',
       CROSS_REALM = ''eu-realm'',
       CROSS_CORS_ORIGIN = ''http://localhost:3001'' \<rparr>"

definition proxied_decode :: "string \<Rightarrow> decode_result" where
  "proxied_decode s =
     (if s = ''eu.b.c''
      then Decoded (example_token ''RS256'' ''k2'' ''http://localhost:8081/realms/eu-realm'' 2000)
      else if s = ''evil.b.c''
      then Decoded (example_token ''RS256'' ''k1'' ''https://evil.example/realms/us-realm'' 2000)
      else if s = ''oldevil.b.c''
      then Decoded (example_token ''RS256'' ''k1'' ''https://evil.example/realms/us-realm'' 999)
      else DecodeNull)"

definition proxied_server :: server where
  "proxied_server =
     \<lparr> cfg = proxied_config,
       localJwks = example_local,
       crossJwks = example_cross,
       lib = \<lparr> decode = proxied_decode,
               jws_verify = (\<lambda>s a k. Inr True),
               clockTimestamp = 1000 \<rparr> \<rparr>"




subsection \<open>The key clients: the jwks-rsa package\<close>

text \<open>
  \<^verbatim>\<open>localJwks\<close> and \<^verbatim>\<open>crossJwks\<close> are clients of the jwks-rsa package, created on
  lines 33-46 with \<^verbatim>\<open>cache: true\<close>, \<^verbatim>\<open>cacheMaxEntries: 5\<close> and
  \<^verbatim>\<open>cacheMaxAge: 600000\<close>; the package is a dependency and not a file of the
  repository. What follows is \<^verbatim>\<open>getSigningKey\<close> of such a client as the package
  has it, for calls that come one after the other: the answers are memoized by kid,
  an answer with a key is kept for \<^verbatim>\<open>cacheMaxAge\<close> milliseconds, an answer with an
  error is not kept, and every call that is not answered from the cache fetches the
  key set from the endpoint.
\<close>



definition cacheMaxAge :: int where
  "cacheMaxAge = 600000"


text \<open>
  The cache of one client: the entries, the most recently used first, each a kid, its
  key and the time in milliseconds at which it was stored.
\<close>

type_synonym key_cache = "(json \<times> string \<times> int) list"

definition cache_get :: "int \<Rightarrow> key_cache \<Rightarrow> json \<Rightarrow> string option \<times> key_cache" where
  "cache_get t c k =
     (case find (\<lambda>e. fst e = k) c of
        None \<Rightarrow> (None, c)
      | Some e \<Rightarrow>
         if t - snd (snd e) > cacheMaxAge then (None, filter (\<lambda>e. fst e \<noteq> k) c)
         else (Some (fst (snd e)), e # filter (\<lambda>e. fst e \<noteq> k) c))"






section \<open>The browser application (eu-app/src/App.tsx)\<close>

subsection \<open>The component state and the mount effect (lines 22-55)\<close>

text \<open>
  The state of \<^verbatim>\<open>App\<close>: the two \<^verbatim>\<open>useState\<close> cells and the \<^verbatim>\<open>useRef\<close> flag.
  Every load of the page starts from \<^verbatim>\<open>initial_app\<close>.
\<close>

record app_state =
  authenticated :: bool
  initialized :: bool
  initCalled :: bool

definition initial_app :: app_state where
  "initial_app = \<lparr> authenticated = False, initialized = False, initCalled = False \<rparr>"

text \<open>
  How the promise of \<^verbatim>\<open>keycloak.init\<close> with \<^verbatim>\<open>onLoad: "check-sso"\<close> settles: it
  resolves with whether the user is authenticated, or it rejects.
\<close>

datatype init_result = InitResolved bool | InitRejected string

record login_options =
  idpHint :: "string option"
  loginHint :: "string option"

text \<open>The calls the effect makes on the adapter and the console.\<close>

datatype app_effect = KeycloakInit | KeycloakLogin login_options | ConsoleError string

text \<open>
  \<^verbatim>\<open>new URLSearchParams(window.location.search).get(name)\<close>: the query string as the
  list of its name and value pairs; the first value under the name, \<^verbatim>\<open>null\<close> when
  there is none.
\<close>

definition URLSearchParams_get :: "(string \<times> string) list \<Rightarrow> string \<Rightarrow> string option" where
  "URLSearchParams_get search name = map_of search name"

definition App_useEffect ::
  "app_state \<Rightarrow> init_result \<Rightarrow> (string \<times> string) list \<Rightarrow> app_state \<times> app_effect list"
where
  "App_useEffect st init search =
     (if initCalled st then (st, [])
      else
        (case init of
           InitResolved auth \<Rightarrow>
             (st \<lparr> initCalled := True, authenticated := auth, initialized := True \<rparr>,
              if \<not> auth
              then (case URLSearchParams_get search ''idp_hint'' of
                      None \<Rightarrow> [KeycloakInit]
                    | Some h \<Rightarrow>
                       if h \<noteq> []
                       then [KeycloakInit,
                             KeycloakLogin \<lparr> idpHint = Some h, loginHint = None \<rparr>]
                       else [KeycloakInit])
              else [KeycloakInit])
         | InitRejected err \<Rightarrow>
             (st \<lparr> initCalled := True, initialized := True \<rparr>,
              [KeycloakInit, ConsoleError err])))"

subsection \<open>The adapter: the keycloak-js package\<close>

text \<open>
  \<^verbatim>\<open>keycloak\<close> is an object of the keycloak-js package (keycloak.ts); the package is
  a dependency and not a file of the repository. What follows is the part of the
  object that \<^verbatim>\<open>updateToken\<close> reads and writes, and \<^verbatim>\<open>updateToken\<close> itself as
  the package has it when the login iframe is switched off, as \<^verbatim>\<open>init\<close> does here
  (\<^verbatim>\<open>checkLoginIframe: false\<close>).
\<close>

record keycloak =
  token :: "string option"
  refreshToken :: "string option"
  tokenParsed :: "jwt_payload option"
  timeSkew :: "int option"

text \<open>
  The answer of the provider's token endpoint to a refresh request: the status, and for
  status 200 the new tokens, with the payload of the new access token and the clock
  skew that \<^verbatim>\<open>setToken\<close> computes from it.
\<close>

record refresh_response =
  status :: nat
  access_token :: string
  refresh_token :: string
  parsed :: jwt_payload
  skew :: int

text \<open>
  The browser: the clock in seconds, rounded up, as \<^verbatim>\<open>isTokenExpired\<close> reads it; the
  token endpoint; and \<^verbatim>\<open>fetch\<close>, given the URL and the Authorization header, which
  throws an error or gives a response.
\<close>

record fetch_response =
  ok :: bool
  json :: "string + string"
  status_and_body :: string

record browser =
  now :: int
  token_endpoint :: "string \<Rightarrow> refresh_response"
  fetch :: "string \<Rightarrow> string \<Rightarrow> string + fetch_response"

datatype 'a promise = Resolved 'a | Rejected string

datatype net_event = RefreshRequest string | Fetch string string

definition isTokenExpired :: "browser \<Rightarrow> keycloak \<Rightarrow> int \<Rightarrow> bool" where
  "isTokenExpired br k minValidity =
     (case timeSkew k of
        None \<Rightarrow> True
      | Some sk \<Rightarrow>
         (case tokenParsed k of
            Some p \<Rightarrow>
              (case exp p of
                 JNumber e \<Rightarrow> e - now br + sk - minValidity < 0
               | _ \<Rightarrow> False)
          | None \<Rightarrow> True))"

text \<open>
  \<^verbatim>\<open>clearToken\<close>: the tokens are dropped. The application registers no
  \<^verbatim>\<open>onAuthLogout\<close> handler and does not require login.
\<close>

definition clearToken :: "keycloak \<Rightarrow> keycloak" where
  "clearToken k =
     (if token k \<noteq> None \<and> token k \<noteq> Some []
      then k \<lparr> token := None, refreshToken := None, tokenParsed := None \<rparr>
      else k)"

text \<open>
  \<^verbatim>\<open>updateToken(minValidity)\<close>: how the promise settles (a rejection with the text
  of the value it rejects with), the adapter afterwards, and the refresh request if one
  was sent.
\<close>

definition updateToken ::
  "browser \<Rightarrow> int \<Rightarrow> keycloak \<Rightarrow> bool promise \<times> keycloak \<times> net_event list"
where
  "updateToken br minValidity k =
     (case refreshToken k of
        None \<Rightarrow> (Rejected ''undefined'', k, [])
      | Some rt \<Rightarrow>
         if rt = [] then (Rejected ''undefined'', k, [])
         else
           let mv = (if minValidity = 0 then 5 else minValidity) in
           if mv = - 1 \<or> tokenParsed k = None \<or> isTokenExpired br k mv
           then
             (let r = token_endpoint br rt in
              if status r = 200
              then (Resolved True,
                    k \<lparr> token := Some (access_token r),
                        refreshToken := Some (refresh_token r),
                        tokenParsed := Some (parsed r),
                        timeSkew := Some (skew r) \<rparr>,
                    [RefreshRequest rt])
              else (Rejected ''true'',
                    (if status r = 400 then clearToken k else k),
                    [RefreshRequest rt]))
           else (Resolved False, k, []))"

subsection \<open>The calls of the protected APIs (lines 320-348 and 406-450)\<close>

text \<open>The state of \<^verbatim>\<open>ApiDemo\<close> and of \<^verbatim>\<open>CrossRegionApiDemo\<close>.\<close>

record api_demo =
  userInfoResult :: string
  dataResult :: string
  loading_userinfo :: bool
  loading_data :: bool

datatype loading_key = Userinfo | Data

definition setLoading :: "loading_key \<Rightarrow> bool \<Rightarrow> api_demo \<Rightarrow> api_demo" where
  "setLoading key b d =
     (case key of
        Userinfo \<Rightarrow> d \<lparr> loading_userinfo := b \<rparr>
      | Data \<Rightarrow> d \<lparr> loading_data := b \<rparr>)"

text \<open>The whole client: the application, the adapter and the two panels.\<close>

record client =
  app :: app_state
  kc :: keycloak
  apiDemo :: api_demo
  crossDemo :: api_demo

definition API_URL :: string where
  "API_URL = ''http://localhost:4001''"

definition OTHER_API_URL :: string where
  "OTHER_API_URL = ''http://localhost:4000''"

text \<open>\<^verbatim>\<open>`Bearer ${keycloak.token}`\<close>.\<close>

definition bearer :: "keycloak \<Rightarrow> string" where
  "bearer k = ''Bearer '' @ (case token k of None \<Rightarrow> ''undefined'' | Some t \<Rightarrow> t)"

text \<open>
  \<^verbatim>\<open>callApi(endpoint, setter, key)\<close>. The \<^verbatim>\<open>catch\<close> block receives what
  \<^verbatim>\<open>updateToken\<close> rejected with, or what \<^verbatim>\<open>fetch\<close> or \<^verbatim>\<open>res.json()\<close> threw; the
  \<^verbatim>\<open>finally\<close> block runs on every path.
\<close>

definition callApi ::
  "browser \<Rightarrow> string \<Rightarrow> (string \<Rightarrow> api_demo \<Rightarrow> api_demo) \<Rightarrow> loading_key \<Rightarrow> client
     \<Rightarrow> client \<times> net_event list"
where
  "callApi br endpoint setter key c =
     (let d = setter [] (setLoading key True (apiDemo c)) in
      case updateToken br 30 (kc c) of
        (Rejected err, k, ev) \<Rightarrow>
          (c \<lparr> kc := k, apiDemo := setLoading key False (setter (''Error: '' @ err) d) \<rparr>, ev)
      | (Resolved _, k, ev) \<Rightarrow>
          (let url = API_URL @ ''/api/'' @ endpoint in
           case fetch br url (bearer k) of
             Inl err \<Rightarrow>
               (c \<lparr> kc := k, apiDemo := setLoading key False (setter (''Error: '' @ err) d) \<rparr>,
                ev @ [Fetch url (bearer k)])
           | Inr res \<Rightarrow>
               (case json res of
                  Inl err \<Rightarrow>
                    (c \<lparr> kc := k,
                         apiDemo := setLoading key False (setter (''Error: '' @ err) d) \<rparr>,
                     ev @ [Fetch url (bearer k)])
                | Inr text \<Rightarrow>
                    (c \<lparr> kc := k, apiDemo := setLoading key False (setter text d) \<rparr>,
                     ev @ [Fetch url (bearer k)]))))"

text \<open>
  \<^verbatim>\<open>callCrossApi(endpoint, setter, key)\<close>: the same against the other region's API,
  with the status shown when the response is not ok.
\<close>

definition callCrossApi ::
  "browser \<Rightarrow> string \<Rightarrow> (string \<Rightarrow> api_demo \<Rightarrow> api_demo) \<Rightarrow> loading_key \<Rightarrow> client
     \<Rightarrow> client \<times> net_event list"
where
  "callCrossApi br endpoint setter key c =
     (let d = setter [] (setLoading key True (crossDemo c)) in
      case updateToken br 30 (kc c) of
        (Rejected err, k, ev) \<Rightarrow>
          (c \<lparr> kc := k, crossDemo := setLoading key False (setter (''Error: '' @ err) d) \<rparr>, ev)
      | (Resolved _, k, ev) \<Rightarrow>
          (let url = OTHER_API_URL @ ''/api/'' @ endpoint in
           case fetch br url (bearer k) of
             Inl err \<Rightarrow>
               (c \<lparr> kc := k,
                    crossDemo := setLoading key False (setter (''Error: '' @ err) d) \<rparr>,
                ev @ [Fetch url (bearer k)])
           | Inr res \<Rightarrow>
               if \<not> ok res
               then (c \<lparr> kc := k,
                         crossDemo := setLoading key False (setter (status_and_body res) d) \<rparr>,
                     ev @ [Fetch url (bearer k)])
               else
                 (case json res of
                    Inl err \<Rightarrow>
                      (c \<lparr> kc := k,
                           crossDemo := setLoading key False (setter (''Error: '' @ err) d) \<rparr>,
                       ev @ [Fetch url (bearer k)])
                  | Inr text \<Rightarrow>
                      (c \<lparr> kc := k, crossDemo := setLoading key False (setter text d) \<rparr>,
                       ev @ [Fetch url (bearer k)]))))"

text \<open>The two setters the buttons pass.\<close>

definition setUserInfoResult :: "string \<Rightarrow> api_demo \<Rightarrow> api_demo" where
  "setUserInfoResult v d = d \<lparr> userInfoResult := v \<rparr>"

definition setDataResult :: "string \<Rightarrow> api_demo \<Rightarrow> api_demo" where
  "setDataResult v d = d \<lparr> dataResult := v \<rparr>"

subsection \<open>A client to compute with\<close>

text \<open>
  A signed-in client whose token expires at second 1010, a browser whose clock is at
  second 1000 and whose token endpoint answers with the given status.
\<close>

definition example_client :: client where
  "example_client =
     \<lparr> app = \<lparr> authenticated = True, initialized = True, initCalled = True \<rparr>,
       kc = \<lparr> token = Some ''old-token'', refreshToken = Some ''refresh-1'',
              tokenParsed = Some \<lparr> iss = JString ''http://localhost:8081/realms/eu-realm'',
                                   exp = JNumber 1010, nbf = JUndefined,
                                   preferred_username = JString ''alice'' \<rparr>,
              timeSkew = Some 0 \<rparr>,
       apiDemo = \<lparr> userInfoResult = [], dataResult = [],
                   loading_userinfo = False, loading_data = False \<rparr>,
       crossDemo = \<lparr> userInfoResult = [], dataResult = [],
                     loading_userinfo = False, loading_data = False \<rparr> \<rparr>"

definition example_browser :: "nat \<Rightarrow> browser" where
  "example_browser s =
     \<lparr> now = 1000,
       token_endpoint = (\<lambda>rt.
          \<lparr> status = s, access_token = ''new-token'', refresh_token = ''refresh-2'',
            parsed = \<lparr> iss = JString ''http://localhost:8081/realms/eu-realm'',
                       exp = JNumber 1300, nbf = JUndefined,
                       preferred_username = JString ''alice'' \<rparr>,
            skew = 0 \<rparr>),
       fetch = (\<lambda>url h. Inr \<lparr> ok = True, json = Inr ''{}'', status_and_body = ''{}'' \<rparr>) \<rparr>"

section \<open>Properties of the API server\<close>

subsection \<open>What an accepted token has passed\<close>

lemma check_claims_VerifiedD:
  assumes "check_claims n (gate_options c) p = Verified q"
  shows "q = p
     \<and> (\<exists>i. iss p = JString i \<and> i \<in> set (ACCEPTED_ISSUERS c))
     \<and> (exp p = JUndefined \<or> (\<exists>e. exp p = JNumber e \<and> n < e))
     \<and> (nbf p = JUndefined \<or> (\<exists>m. nbf p = JNumber m \<and> m \<le> n))"
  using assms
  by (cases "iss p"; cases "exp p"; cases "nbf p")
     (auto simp: check_claims_def gate_options_def tolerance_def split: if_splits)

lemma check_signature_VerifiedD:
  assumes "check_signature cr (gate_options c) t parts tok k = Verified q"
  shows "q = payload tok \<and> alg (header tok) = JString ''RS256''
     \<and> jws_verify cr t (JString ''RS256'') k = Inr True"
  using assms
  by (cases "alg (header tok)")
     (auto simp: check_signature_def gate_options_def Let_def
           split: if_splits sum.splits bool.splits)

lemma signature_stage_VerifiedD:
  assumes "fst (signature_stage cr tk gs (gate_options c)) = Verified q"
  shows "\<exists>t tok k. tk = Some t \<and> t \<noteq> [] \<and> length (split_on CHR ''.'' t) = 3
     \<and> decode cr t = Decoded tok \<and> q = payload tok
     \<and> fst (gs (header tok)) = KeyFound k
     \<and> alg (header tok) = JString ''RS256''
     \<and> jws_verify cr t (JString ''RS256'') k = Inr True"
  using assms
  by (auto simp: signature_stage_def Let_def
           split: option.splits if_splits decode_result.splits prod.splits key_result.splits
           dest!: check_signature_VerifiedD)

lemma jwt_verify_VerifiedD:
  assumes "fst (jwt_verify cr tk gs opts) = Verified q"
  shows "\<exists>p. fst (signature_stage cr tk gs opts) = Verified p
     \<and> check_claims (clockTimestamp cr) opts p = Verified q"
  using assms
  by (auto simp: jwt_verify_def split: prod.splits verify_result.splits)

lemma jwt_verify_after_signature:
  assumes "fst (signature_stage cr tk gs opts) = Verified p"
  shows "fst (jwt_verify cr tk gs opts) = check_claims (clockTimestamp cr) opts p"
  using assms
  by (auto simp: jwt_verify_def split: prod.splits verify_result.splits)

lemma verify_token_VerifiedD:
  assumes "fst (verify_token srv tk) = Verified q"
  shows "\<exists>t tok k. tk = Some t \<and> t \<noteq> [] \<and> length (split_on CHR ''.'' t) = 3
     \<and> decode (lib srv) t = Decoded tok \<and> q = payload tok
     \<and> fst (getKey (localJwks srv) (crossJwks srv) (header tok)) = KeyFound k
     \<and> alg (header tok) = JString ''RS256''
     \<and> jws_verify (lib srv) t (JString ''RS256'') k = Inr True
     \<and> check_claims (clockTimestamp (lib srv)) (gate_options (cfg srv)) q = Verified q"
proof -
  from assms obtain p where
    s: "fst (signature_stage (lib srv) tk (getKey (localJwks srv) (crossJwks srv))
          (gate_options (cfg srv))) = Verified p"
    and c: "check_claims (clockTimestamp (lib srv)) (gate_options (cfg srv)) p = Verified q"
    unfolding verify_token_def by (blast dest: jwt_verify_VerifiedD)
  from c have "q = p" by (simp add: check_claims_VerifiedD)
  with signature_stage_VerifiedD [OF s] c show ?thesis by auto
qed

lemma authenticate_NextD:
  assumes "fst (authenticate srv req) = Next q"
  shows "\<exists>h. authorization req = Some h \<and> startsWith h ''Bearer ''
     \<and> fst (verify_token srv (at_index (split_on CHR '' '' h) 1)) = Verified q"
  using assms
  by (auto simp: authenticate_def Let_def split: option.splits if_splits verify_result.splits)

lemma authenticate_RespondD:
  assumes "fst (authenticate srv req) = Respond s body"
  shows "s = 401
     \<and> ((body = [(''error'', ''Missing or invalid Authorization header'')]
          \<and> (authorization req = None
              \<or> (\<exists>h. authorization req = Some h \<and> \<not> startsWith h ''Bearer '')))
        \<or> (\<exists>h m. authorization req = Some h \<and> startsWith h ''Bearer ''
              \<and> fst (verify_token srv (at_index (split_on CHR '' '' h) 1)) = VerifyError m
              \<and> body = [(''error'', ''Invalid token''), (''detail'', m)]))"
  using assms
  by (auto simp: authenticate_def Let_def startsWith_def
           split: option.splits if_splits verify_result.splits)

lemmas example_defs =
  authenticate_def startsWith_def at_index_def verify_token_def jwt_verify_def
  signature_stage_def check_signature_def check_claims_def gate_options_def getKey_def
  example_server_def example_decode_def example_token_def example_local_def
  example_cross_def default_config_def ACCEPTED_ISSUERS_def trim_nonempty_def is_space_def
  tolerance_def Let_def

subsection \<open>Issuer trust\<close>

lemmas proxied_defs =
  authenticate_def startsWith_def at_index_def verify_token_def jwt_verify_def
  signature_stage_def check_signature_def check_claims_def gate_options_def getKey_def
  proxied_server_def proxied_decode_def example_token_def example_local_def
  example_cross_def proxied_config_def ACCEPTED_ISSUERS_def trim_nonempty_def is_space_def
  tolerance_def Let_def

lemma check_claims_in_window:
  assumes "nbf p = JUndefined \<or> (\<exists>m. nbf p = JNumber m \<and> m \<le> n)"
    and "exp p = JUndefined \<or> (\<exists>e. exp p = JNumber e \<and> n < e)"
  shows "check_claims n (gate_options c) p =
     (if \<exists>i. iss p = JString i \<and> i \<in> set (ACCEPTED_ISSUERS c) then Verified p
      else VerifyError (''jwt issuer invalid. expected: '' @ join_comma (ACCEPTED_ISSUERS c)))"
  using assms
  by (cases "iss p") (auto simp: check_claims_def gate_options_def tolerance_def)

lemma proxied_stage:
  "fst (signature_stage (lib proxied_server) (Some ''eu.b.c'')
          (getKey (localJwks proxied_server) (crossJwks proxied_server))
          (gate_options (cfg proxied_server)))
     = Verified (payload (example_token ''RS256'' ''k2''
                            ''http://localhost:8081/realms/eu-realm'' 2000))"
  "fst (signature_stage (lib proxied_server) (Some ''evil.b.c'')
          (getKey (localJwks proxied_server) (crossJwks proxied_server))
          (gate_options (cfg proxied_server)))
     = Verified (payload (example_token ''RS256'' ''k1''
                            ''https://evil.example/realms/us-realm'' 2000))"
  "fst (signature_stage (lib proxied_server) (Some ''oldevil.b.c'')
          (getKey (localJwks proxied_server) (crossJwks proxied_server))
          (gate_options (cfg proxied_server)))
     = Verified (payload (example_token ''RS256'' ''k1''
                            ''https://evil.example/realms/us-realm'' 999))"
  by (simp_all add: proxied_defs)

text \<open>
  Claim C1, as amended. The accepted issuers are the four strings built from the
  configuration, in the order internal and external URL of the local region, internal
  and external URL of the peer region. A token whose \<^verbatim>\<open>iss\<close> claim is not a string
  equal to one of the four is never verified, whatever its key and signature, and the
  gate admits no request whose payload has another issuer. A token with a resolvable
  key and a valid signature that is within its time window is verified exactly when its
  issuer is one of the four, and is otherwise turned away with the issuer error. The
  time window is checked before the issuer.
\<close>

theorem issuer_trust_exact:
  "ACCEPTED_ISSUERS (cfg srv) =
      [ KEYCLOAK_URL (cfg srv) @ ''/realms/'' @ REALM (cfg srv),
        KEYCLOAK_EXTERNAL_URL (cfg srv) @ ''/realms/'' @ REALM (cfg srv),
        CROSS_KEYCLOAK_URL (cfg srv) @ ''/realms/'' @ CROSS_REALM (cfg srv),
        CROSS_KEYCLOAK_EXTERNAL_URL (cfg srv) @ ''/realms/'' @ CROSS_REALM (cfg srv) ]
   \<and> (\<forall>t tok. decode (lib srv) t = Decoded tok
          \<and> (\<forall>i. iss (payload tok) = JString i \<longrightarrow> i \<notin> set (ACCEPTED_ISSUERS (cfg srv)))
        \<longrightarrow> (\<forall>q. fst (verify_token srv (Some t)) \<noteq> Verified q))
   \<and> (\<forall>req q. fst (authenticate srv req) = Next q
        \<longrightarrow> (\<exists>i. iss q = JString i \<and> i \<in> set (ACCEPTED_ISSUERS (cfg srv))))
   \<and> (\<forall>tk p. fst (signature_stage (lib srv) tk (getKey (localJwks srv) (crossJwks srv))
                  (gate_options (cfg srv))) = Verified p
          \<and> (nbf p = JUndefined \<or> (\<exists>m. nbf p = JNumber m \<and> m \<le> clockTimestamp (lib srv)))
          \<and> (exp p = JUndefined \<or> (\<exists>e. exp p = JNumber e \<and> clockTimestamp (lib srv) < e))
        \<longrightarrow> fst (verify_token srv tk)
              = (if iss p = JString (KEYCLOAK_URL (cfg srv) @ ''/realms/'' @ REALM (cfg srv))
                    \<or> iss p = JString (KEYCLOAK_EXTERNAL_URL (cfg srv) @ ''/realms/''
                                         @ REALM (cfg srv))
                    \<or> iss p = JString (CROSS_KEYCLOAK_URL (cfg srv) @ ''/realms/''
                                         @ CROSS_REALM (cfg srv))
                    \<or> iss p = JString (CROSS_KEYCLOAK_EXTERNAL_URL (cfg srv) @ ''/realms/''
                                         @ CROSS_REALM (cfg srv))
                 then Verified p
                 else VerifyError (''jwt issuer invalid. expected: ''
                                     @ join_comma (ACCEPTED_ISSUERS (cfg srv)))))"
proof (intro conjI allI impI)
  show "ACCEPTED_ISSUERS (cfg srv) =
      [ KEYCLOAK_URL (cfg srv) @ ''/realms/'' @ REALM (cfg srv),
        KEYCLOAK_EXTERNAL_URL (cfg srv) @ ''/realms/'' @ REALM (cfg srv),
        CROSS_KEYCLOAK_URL (cfg srv) @ ''/realms/'' @ CROSS_REALM (cfg srv),
        CROSS_KEYCLOAK_EXTERNAL_URL (cfg srv) @ ''/realms/'' @ CROSS_REALM (cfg srv) ]"
    by (simp add: ACCEPTED_ISSUERS_def)
next
  fix t tok q
  assume a: "decode (lib srv) t = Decoded tok
     \<and> (\<forall>i. iss (payload tok) = JString i \<longrightarrow> i \<notin> set (ACCEPTED_ISSUERS (cfg srv)))"
  show "fst (verify_token srv (Some t)) \<noteq> Verified q"
  proof
    assume "fst (verify_token srv (Some t)) = Verified q"
    from verify_token_VerifiedD [OF this] a
    have "q = payload tok"
      and "check_claims (clockTimestamp (lib srv)) (gate_options (cfg srv)) q = Verified q"
      by auto
    with a show False by (auto dest: check_claims_VerifiedD)
  qed
next
  fix req q
  assume "fst (authenticate srv req) = Next q"
  then obtain jwt where "fst (verify_token srv jwt) = Verified q"
    by (blast dest: authenticate_NextD)
  from verify_token_VerifiedD [OF this]
  have "check_claims (clockTimestamp (lib srv)) (gate_options (cfg srv)) q = Verified q"
    by auto
  then show "\<exists>i. iss q = JString i \<and> i \<in> set (ACCEPTED_ISSUERS (cfg srv))"
    by (blast dest: check_claims_VerifiedD)
next
  fix tk p
  assume a: "fst (signature_stage (lib srv) tk (getKey (localJwks srv) (crossJwks srv))
                  (gate_options (cfg srv))) = Verified p
          \<and> (nbf p = JUndefined \<or> (\<exists>m. nbf p = JNumber m \<and> m \<le> clockTimestamp (lib srv)))
          \<and> (exp p = JUndefined \<or> (\<exists>e. exp p = JNumber e \<and> clockTimestamp (lib srv) < e))"
  then have "fst (verify_token srv tk)
      = check_claims (clockTimestamp (lib srv)) (gate_options (cfg srv)) p"
    unfolding verify_token_def by (simp add: jwt_verify_after_signature)
  also from a have "\<dots> =
     (if \<exists>i. iss p = JString i \<and> i \<in> set (ACCEPTED_ISSUERS (cfg srv)) then Verified p
      else VerifyError (''jwt issuer invalid. expected: ''
                          @ join_comma (ACCEPTED_ISSUERS (cfg srv))))"
    by (intro check_claims_in_window) auto
  also have "(\<exists>i. iss p = JString i \<and> i \<in> set (ACCEPTED_ISSUERS (cfg srv))) =
      (iss p = JString (KEYCLOAK_URL (cfg srv) @ ''/realms/'' @ REALM (cfg srv))
       \<or> iss p = JString (KEYCLOAK_EXTERNAL_URL (cfg srv) @ ''/realms/'' @ REALM (cfg srv))
       \<or> iss p = JString (CROSS_KEYCLOAK_URL (cfg srv) @ ''/realms/'' @ CROSS_REALM (cfg srv))
       \<or> iss p = JString (CROSS_KEYCLOAK_EXTERNAL_URL (cfg srv) @ ''/realms/''
                            @ CROSS_REALM (cfg srv)))"
    by (auto simp: ACCEPTED_ISSUERS_def)
  finally show "fst (verify_token srv tk)
              = (if iss p = JString (KEYCLOAK_URL (cfg srv) @ ''/realms/'' @ REALM (cfg srv))
                    \<or> iss p = JString (KEYCLOAK_EXTERNAL_URL (cfg srv) @ ''/realms/''
                                         @ REALM (cfg srv))
                    \<or> iss p = JString (CROSS_KEYCLOAK_URL (cfg srv) @ ''/realms/''
                                         @ CROSS_REALM (cfg srv))
                    \<or> iss p = JString (CROSS_KEYCLOAK_EXTERNAL_URL (cfg srv) @ ''/realms/''
                                         @ CROSS_REALM (cfg srv))
                 then Verified p
                 else VerifyError (''jwt issuer invalid. expected: ''
                                     @ join_comma (ACCEPTED_ISSUERS (cfg srv))))" .
qed

theorem issuer_trust_exact_witness:
  "fst (verify_token proxied_server (Some ''eu.b.c''))
     = Verified (payload (example_token ''RS256'' ''k2''
                            ''http://localhost:8081/realms/eu-realm'' 2000))
   \<and> fst (verify_token proxied_server (Some ''evil.b.c''))
     = VerifyError ''jwt issuer invalid. expected: http://keycloak-us:8080/realms/us-realm,http://localhost:8080/realms/us-realm,http://keycloak-eu:8080/realms/eu-realm,http://localhost:8081/realms/eu-realm''"
proof -
  let ?eu = "payload (example_token ''RS256'' ''k2'' ''http://localhost:8081/realms/eu-realm'' 2000)"
  let ?evil = "payload (example_token ''RS256'' ''k1'' ''https://evil.example/realms/us-realm'' 2000)"
  have w: "(nbf ?eu = JUndefined \<or> (\<exists>m. nbf ?eu = JNumber m \<and> m \<le> clockTimestamp (lib proxied_server)))
      \<and> (exp ?eu = JUndefined \<or> (\<exists>e. exp ?eu = JNumber e \<and> clockTimestamp (lib proxied_server) < e))"
    "(nbf ?evil = JUndefined \<or> (\<exists>m. nbf ?evil = JNumber m \<and> m \<le> clockTimestamp (lib proxied_server)))
      \<and> (exp ?evil = JUndefined \<or> (\<exists>e. exp ?evil = JNumber e \<and> clockTimestamp (lib proxied_server) < e))"
    by (simp_all add: example_token_def proxied_server_def)
  from issuer_trust_exact [of proxied_server] proxied_stage(1) w(1)
  have "fst (verify_token proxied_server (Some ''eu.b.c''))
      = (if iss ?eu = JString (KEYCLOAK_URL (cfg proxied_server) @ ''/realms/'' @ REALM (cfg proxied_server))
            \<or> iss ?eu = JString (KEYCLOAK_EXTERNAL_URL (cfg proxied_server) @ ''/realms/'' @ REALM (cfg proxied_server))
            \<or> iss ?eu = JString (CROSS_KEYCLOAK_URL (cfg proxied_server) @ ''/realms/'' @ CROSS_REALM (cfg proxied_server))
            \<or> iss ?eu = JString (CROSS_KEYCLOAK_EXTERNAL_URL (cfg proxied_server) @ ''/realms/'' @ CROSS_REALM (cfg proxied_server))
         then Verified ?eu
         else VerifyError (''jwt issuer invalid. expected: '' @ join_comma (ACCEPTED_ISSUERS (cfg proxied_server))))"
    by blast
  then have a: "fst (verify_token proxied_server (Some ''eu.b.c'')) = Verified ?eu"
    by (simp add: example_token_def proxied_server_def proxied_config_def)
  from issuer_trust_exact [of proxied_server] proxied_stage(2) w(2)
  have "fst (verify_token proxied_server (Some ''evil.b.c''))
      = (if iss ?evil = JString (KEYCLOAK_URL (cfg proxied_server) @ ''/realms/'' @ REALM (cfg proxied_server))
            \<or> iss ?evil = JString (KEYCLOAK_EXTERNAL_URL (cfg proxied_server) @ ''/realms/'' @ REALM (cfg proxied_server))
            \<or> iss ?evil = JString (CROSS_KEYCLOAK_URL (cfg proxied_server) @ ''/realms/'' @ CROSS_REALM (cfg proxied_server))
            \<or> iss ?evil = JString (CROSS_KEYCLOAK_EXTERNAL_URL (cfg proxied_server) @ ''/realms/'' @ CROSS_REALM (cfg proxied_server))
         then Verified ?evil
         else VerifyError (''jwt issuer invalid. expected: '' @ join_comma (ACCEPTED_ISSUERS (cfg proxied_server))))"
    by blast
  then have b: "fst (verify_token proxied_server (Some ''evil.b.c''))
     = VerifyError ''jwt issuer invalid. expected: http://keycloak-us:8080/realms/us-realm,http://localhost:8080/realms/us-realm,http://keycloak-eu:8080/realms/eu-realm,http://localhost:8081/realms/eu-realm''"
    by (simp add: example_token_def proxied_server_def proxied_config_def ACCEPTED_ISSUERS_def)
  from a b show ?thesis by (rule conjI)
qed

text \<open>
  The claim as it was stated fails: a token of a foreign issuer with a resolvable key
  and a valid signature that expired a second ago is turned away with the expiry error,
  not with the issuer error.
\<close>

theorem expired_foreign_issuer:
  "fst (signature_stage (lib proxied_server) (Some ''oldevil.b.c'')
          (getKey (localJwks proxied_server) (crossJwks proxied_server))
          (gate_options (cfg proxied_server)))
     = Verified (payload (example_token ''RS256'' ''k1''
                            ''https://evil.example/realms/us-realm'' 999))
   \<and> ''https://evil.example/realms/us-realm'' \<notin> set (ACCEPTED_ISSUERS (cfg proxied_server))
   \<and> authenticate proxied_server
        \<lparr> origin = None, authorization = Some ''Bearer oldevil.b.c'' \<rparr>
     = (Respond 401 [(''error'', ''Invalid token''), (''detail'', ''jwt expired'')],
        [VerifyCalled (Some ''oldevil.b.c''), KeyLookup Local (JString ''k1'')])"
  by (simp add: proxied_defs)

subsection \<open>The pinned algorithm\<close>

text \<open>
  Claim C2. The verifier is given the single algorithm RS256. A token whose header
  declares anything else (HS256, none, no algorithm at all) is never verified, and the
  payload of every admitted request comes from a token whose header says RS256.
\<close>

theorem only_RS256_accepted:
  "algorithms (gate_options (cfg srv)) = [''RS256'']
   \<and> (\<forall>t tok. decode (lib srv) t = Decoded tok \<and> alg (header tok) \<noteq> JString ''RS256''
        \<longrightarrow> (\<forall>q. fst (verify_token srv (Some t)) \<noteq> Verified q))
   \<and> (\<forall>req q. fst (authenticate srv req) = Next q
        \<longrightarrow> (\<exists>h t tok. authorization req = Some h
               \<and> at_index (split_on CHR '' '' h) 1 = Some t
               \<and> decode (lib srv) t = Decoded tok
               \<and> alg (header tok) = JString ''RS256'' \<and> payload tok = q))"
proof (intro conjI allI impI)
  show "algorithms (gate_options (cfg srv)) = [''RS256'']"
    by (simp add: gate_options_def)
next
  fix t tok q
  assume a: "decode (lib srv) t = Decoded tok \<and> alg (header tok) \<noteq> JString ''RS256''"
  show "fst (verify_token srv (Some t)) \<noteq> Verified q"
  proof
    assume "fst (verify_token srv (Some t)) = Verified q"
    from verify_token_VerifiedD [OF this] a show False by auto
  qed
next
  fix req q
  assume "fst (authenticate srv req) = Next q"
  then obtain h where h: "authorization req = Some h"
    and v: "fst (verify_token srv (at_index (split_on CHR '' '' h) 1)) = Verified q"
    by (blast dest: authenticate_NextD)
  from verify_token_VerifiedD [OF v] h
  show "\<exists>h t tok. authorization req = Some h
               \<and> at_index (split_on CHR '' '' h) 1 = Some t
               \<and> decode (lib srv) t = Decoded tok
               \<and> alg (header tok) = JString ''RS256'' \<and> payload tok = q"
    by auto
qed

theorem only_RS256_accepted_witness:
  "example_decode ''hs.b.c''
     = Decoded (example_token ''HS256'' ''k1'' ''http://localhost:8080/realms/us-realm'' 2000)
   \<and> fst (verify_token example_server (Some ''hs.b.c'')) = VerifyError ''invalid algorithm''
   \<and> example_decode ''none.b.''
     = Decoded (example_token ''none'' ''k9'' ''http://localhost:8080/realms/us-realm'' 2000)
   \<and> fst (verify_token example_server (Some ''none.b.''))
     = VerifyError ''error in secret or public key callback: Unable to find a signing key that matches''
   \<and> fst (authenticate example_server
            \<lparr> origin = None, authorization = Some ''Bearer eu.b.c'' \<rparr>)
      = Next (payload (example_token ''RS256'' ''k2''
                         ''http://localhost:8081/realms/eu-realm'' 2000))"
  using only_RS256_accepted [of example_server]
  by (simp add: example_defs)

subsection \<open>Federated key lookup\<close>

text \<open>
  Claim C3. \<^verbatim>\<open>getKey\<close> asks the local client first. When the local client answers
  with a key, that key is the result and the cross-region client is not asked. Otherwise
  the cross-region client is asked, and its key, if it answers with one, is the result.
  When neither answers with a key the result is not a key. A key that is returned is
  the answer of one of the two clients for the requested kid, and both clients are
  asked for the requested kid only.
\<close>

theorem getKey_local_then_cross:
  "(\<forall>k. l (kid h) = (None, Some k) \<longrightarrow> getKey l c h = (KeyFound k, [(Local, kid h)]))
   \<and> (\<forall>k. (\<forall>k'. l (kid h) \<noteq> (None, Some k')) \<and> c (kid h) = (None, Some k)
          \<longrightarrow> getKey l c h = (KeyFound k, [(Local, kid h), (Cross, kid h)]))
   \<and> ((\<forall>k. l (kid h) \<noteq> (None, Some k)) \<and> (\<forall>k. c (kid h) \<noteq> (None, Some k))
          \<longrightarrow> (\<forall>k. fst (getKey l c h) \<noteq> KeyFound k)
              \<and> snd (getKey l c h) = [(Local, kid h), (Cross, kid h)])
   \<and> (\<forall>k. fst (getKey l c h) = KeyFound k
          \<longrightarrow> l (kid h) = (None, Some k) \<or> c (kid h) = (None, Some k))
   \<and> (\<forall>q \<in> set (snd (getKey l c h)). snd q = kid h)"
  by (auto simp: getKey_def split: prod.splits option.splits)

theorem getKey_local_then_cross_witness:
  "getKey example_local example_cross \<lparr> alg = JString ''RS256'', kid = JString ''k1'' \<rparr>
     = (KeyFound ''PEM-US'', [(Local, JString ''k1'')])
   \<and> getKey example_local example_cross \<lparr> alg = JString ''RS256'', kid = JString ''k2'' \<rparr>
     = (KeyFound ''PEM-EU'', [(Local, JString ''k2''), (Cross, JString ''k2'')])
   \<and> fst (getKey example_local example_cross \<lparr> alg = JString ''RS256'', kid = JString ''k9'' \<rparr>)
     = KeyError ''Unable to find a signing key that matches''"
  using getKey_local_then_cross [of example_local "\<lparr> alg = JString ''RS256'', kid = JString ''k1'' \<rparr>" example_cross]
    getKey_local_then_cross [of example_local "\<lparr> alg = JString ''RS256'', kid = JString ''k2'' \<rparr>" example_cross]
    getKey_local_then_cross [of example_local "\<lparr> alg = JString ''RS256'', kid = JString ''k9'' \<rparr>" example_cross]
  by (simp add: example_local_def example_cross_def getKey_def)

subsection \<open>Requests without a bearer credential\<close>

text \<open>
  Claim C5. A request whose Authorization header is absent or does not start with
  \<^verbatim>\<open>Bearer \<close> is answered with status 401 at once: the verifier is not called and no
  key is looked up. Whenever the verifier is called, the header starts with
  \<^verbatim>\<open>Bearer \<close> and the verifier is given the header's second word.
\<close>

theorem authenticate_missing_credential:
  "(authorization req = None \<or> (\<exists>h. authorization req = Some h \<and> \<not> startsWith h ''Bearer '')
      \<longrightarrow> authenticate srv req
            = (Respond 401 [(''error'', ''Missing or invalid Authorization header'')], []))
   \<and> (snd (authenticate srv req) \<noteq> []
      \<longrightarrow> (\<exists>h. authorization req = Some h \<and> startsWith h ''Bearer ''
               \<and> hd (snd (authenticate srv req))
                   = VerifyCalled (at_index (split_on CHR '' '' h) 1)))"
  by (auto simp: authenticate_def Let_def startsWith_def split: option.splits verify_result.splits)

theorem authenticate_missing_credential_witness:
  "authenticate example_server \<lparr> origin = None, authorization = None \<rparr>
     = (Respond 401 [(''error'', ''Missing or invalid Authorization header'')], [])
   \<and> authenticate example_server \<lparr> origin = None, authorization = Some ''Basic dXNlcjpwdw=='' \<rparr>
     = (Respond 401 [(''error'', ''Missing or invalid Authorization header'')], [])
   \<and> snd (authenticate example_server \<lparr> origin = None, authorization = Some ''Bearer us.b.c'' \<rparr>)
     = [VerifyCalled (Some ''us.b.c''), KeyLookup Local (JString ''k1'')]"
  using authenticate_missing_credential [of "\<lparr> origin = None, authorization = None \<rparr>" example_server]
    authenticate_missing_credential [of "\<lparr> origin = None, authorization = Some ''Basic dXNlcjpwdw=='' \<rparr>" example_server]
    authenticate_missing_credential [of "\<lparr> origin = None, authorization = Some ''Bearer us.b.c'' \<rparr>" example_server]
  by (simp add: authenticate_def startsWith_def at_index_def verify_token_def jwt_verify_def
      signature_stage_def check_signature_def check_claims_def gate_options_def getKey_def
      example_server_def example_decode_def example_token_def example_local_def
      example_cross_def default_config_def ACCEPTED_ISSUERS_def trim_nonempty_def is_space_def
      tolerance_def Let_def)

subsection \<open>Expired tokens\<close>

text \<open>
  Claim C6. No clock tolerance is configured and expiry is not ignored. A token whose
  \<^verbatim>\<open>exp\<close> is not after the current second (in particular one that expired a second
  ago) is never verified, and every admitted payload has no \<^verbatim>\<open>exp\<close> or one in the
  future; when such a token has a resolvable key, a valid signature and is not used
  before its \<^verbatim>\<open>nbf\<close>, the verifier's error is the expiry error.
\<close>

theorem expired_token_rejected:
  "clockTolerance (gate_options (cfg srv)) = None
   \<and> \<not> ignoreExpiration (gate_options (cfg srv))
   \<and> (\<forall>t tok e. decode (lib srv) t = Decoded tok \<and> exp (payload tok) = JNumber e
          \<and> e \<le> clockTimestamp (lib srv)
        \<longrightarrow> (\<forall>q. fst (verify_token srv (Some t)) \<noteq> Verified q))
   \<and> (\<forall>req q. fst (authenticate srv req) = Next q
        \<longrightarrow> exp q = JUndefined \<or> (\<exists>e. exp q = JNumber e \<and> clockTimestamp (lib srv) < e))
   \<and> (\<forall>tk p e. fst (signature_stage (lib srv) tk (getKey (localJwks srv) (crossJwks srv))
                  (gate_options (cfg srv))) = Verified p
          \<and> exp p = JNumber e \<and> e \<le> clockTimestamp (lib srv)
          \<and> (nbf p = JUndefined \<or> (\<exists>m. nbf p = JNumber m \<and> m \<le> clockTimestamp (lib srv)))
        \<longrightarrow> fst (verify_token srv tk) = VerifyError ''jwt expired'')"
proof (intro conjI allI impI)
  show "clockTolerance (gate_options (cfg srv)) = None"
    by (simp add: gate_options_def)
next
  show "\<not> ignoreExpiration (gate_options (cfg srv))"
    by (simp add: gate_options_def)
next
  fix t tok e q
  assume a: "decode (lib srv) t = Decoded tok \<and> exp (payload tok) = JNumber e
          \<and> e \<le> clockTimestamp (lib srv)"
  show "fst (verify_token srv (Some t)) \<noteq> Verified q"
  proof
    assume "fst (verify_token srv (Some t)) = Verified q"
    from verify_token_VerifiedD [OF this] a
    have "q = payload tok"
      and "check_claims (clockTimestamp (lib srv)) (gate_options (cfg srv)) q = Verified q"
      by auto
    with a show False by (auto dest: check_claims_VerifiedD)
  qed
next
  fix req q
  assume "fst (authenticate srv req) = Next q"
  then obtain jwt where "fst (verify_token srv jwt) = Verified q"
    by (blast dest: authenticate_NextD)
  from verify_token_VerifiedD [OF this]
  have "check_claims (clockTimestamp (lib srv)) (gate_options (cfg srv)) q = Verified q"
    by auto
  then show "exp q = JUndefined \<or> (\<exists>e. exp q = JNumber e \<and> clockTimestamp (lib srv) < e)"
    by (blast dest: check_claims_VerifiedD)
next
  fix tk p e
  assume a: "fst (signature_stage (lib srv) tk (getKey (localJwks srv) (crossJwks srv))
                  (gate_options (cfg srv))) = Verified p
          \<and> exp p = JNumber e \<and> e \<le> clockTimestamp (lib srv)
          \<and> (nbf p = JUndefined \<or> (\<exists>m. nbf p = JNumber m \<and> m \<le> clockTimestamp (lib srv)))"
  then have "fst (verify_token srv tk)
      = check_claims (clockTimestamp (lib srv)) (gate_options (cfg srv)) p"
    unfolding verify_token_def by (simp add: jwt_verify_after_signature)
  also from a have "\<dots> = VerifyError ''jwt expired''"
    by (auto simp: check_claims_def gate_options_def tolerance_def)
  finally show "fst (verify_token srv tk) = VerifyError ''jwt expired''" .
qed

theorem expired_token_rejected_witness:
  "example_decode ''old.b.c''
     = Decoded (example_token ''RS256'' ''k1'' ''http://localhost:8080/realms/us-realm'' 999)
   \<and> clockTimestamp (lib example_server) - 1 = 999
   \<and> authenticate example_server \<lparr> origin = None, authorization = Some ''Bearer old.b.c'' \<rparr>
      = (Respond 401 [(''error'', ''Invalid token''), (''detail'', ''jwt expired'')],
         [VerifyCalled (Some ''old.b.c''), KeyLookup Local (JString ''k1'')])"
  using expired_token_rejected [of example_server]
  by (simp add: example_defs)

subsection \<open>The body of a denial\<close>














subsection \<open>The origin allow-list\<close>

text \<open>
  Claim C10, as amended. A request with no Origin header, or with an Origin header whose
  value is empty, passes the cross-origin check whatever else it holds and goes on to
  the gate. A request with a non-empty Origin passes exactly when the value equals the
  local or the cross-region frontend origin; any other value ends the request with the
  error of the check, before the verifier is called or a key is looked up.
\<close>

theorem origin_allow_list:
  "(\<forall>req. origin req = None \<or> origin req = Some []
        \<longrightarrow> protected_route srv req
            = (Gate (fst (authenticate srv req)), snd (authenticate srv req)))
   \<and> (\<forall>req s. origin req = Some s \<and> s \<noteq> []
        \<longrightarrow> (if s = CORS_ORIGIN (cfg srv) \<or> s = CROSS_CORS_ORIGIN (cfg srv)
            then protected_route srv req
                 = (Gate (fst (authenticate srv req)), snd (authenticate srv req))
            else protected_route srv req
                 = (OriginError (''CORS: origin '' @ s @ '' not allowed''), [])))"
  by (auto simp: protected_route_def cors_origin_def allowedOrigins_def)

theorem origin_allow_list_witness:
  "protected_route example_server \<lparr> origin = None, authorization = Some ''Bearer us.b.c'' \<rparr>
     = (Gate (Next (payload (example_token ''RS256'' ''k1''
                         ''http://localhost:8080/realms/us-realm'' 2000))),
        [VerifyCalled (Some ''us.b.c''), KeyLookup Local (JString ''k1'')])
   \<and> protected_route example_server
        \<lparr> origin = Some ''http://localhost:3001'', authorization = Some ''Bearer us.b.c'' \<rparr>
     = (Gate (Next (payload (example_token ''RS256'' ''k1''
                         ''http://localhost:8080/realms/us-realm'' 2000))),
        [VerifyCalled (Some ''us.b.c''), KeyLookup Local (JString ''k1'')])
   \<and> protected_route example_server
        \<lparr> origin = Some ''http://localhost:3000.evil.example'',
          authorization = Some ''Bearer us.b.c'' \<rparr>
     = (OriginError ''CORS: origin http://localhost:3000.evil.example not allowed'', [])"
  using origin_allow_list [of example_server]
  by (simp add: protected_route_def cors_origin_def allowedOrigins_def example_defs)

text \<open>
  The claim as it was stated fails for a request that presents an Origin header with an
  empty value: the empty string is not in the list, and the request is admitted.
\<close>

theorem empty_origin_admitted:
  "origin \<lparr> origin = Some [], authorization = None \<rparr> = Some []
   \<and> [] \<notin> set (allowedOrigins (cfg example_server))
   \<and> cors_origin (cfg example_server) (Some []) = Inr True
   \<and> protected_route example_server \<lparr> origin = Some [], authorization = None \<rparr>
      = (Gate (Respond 401 [(''error'', ''Missing or invalid Authorization header'')]), [])"
  by (simp add: protected_route_def cors_origin_def allowedOrigins_def example_defs)

subsection \<open>Key-set fetches of repeated lookups\<close>

lemma cache_get_miss:
  assumes "\<forall>e \<in> set c. fst e \<noteq> k"
  shows "cache_get t c k = (None, c)"
proof -
  from assms have "find (\<lambda>e. fst e = k) c = None"
    by (auto simp: find_None_iff)
  then show ?thesis by (simp add: cache_get_def)
qed


lemma cache_set_other:
  assumes "\<forall>e \<in> set c. fst e \<noteq> k"
  shows "\<forall>e \<in> set (snd (cache_get t c k)). fst e \<noteq> k"
  using assms by (simp add: cache_get_miss)











section \<open>Properties of the browser application\<close>

subsection \<open>The adapter and the calls\<close>

lemma updateToken_under_margin:
  assumes "refreshToken k = Some rt" "rt \<noteq> []" "tokenParsed k = Some p" "exp p = JNumber e"
    "timeSkew k = Some sk" "e - now br + sk < 30"
  shows "updateToken br 30 k =
     (if status (token_endpoint br rt) = 200
      then (Resolved True,
            k \<lparr> token := Some (access_token (token_endpoint br rt)),
                refreshToken := Some (refresh_token (token_endpoint br rt)),
                tokenParsed := Some (parsed (token_endpoint br rt)),
                timeSkew := Some (skew (token_endpoint br rt)) \<rparr>,
            [RefreshRequest rt])
      else (Rejected ''true'',
            (if status (token_endpoint br rt) = 400 then clearToken k else k),
            [RefreshRequest rt]))"
  using assms by (simp add: updateToken_def isTokenExpired_def Let_def)

lemma updateToken_within_margin:
  assumes "refreshToken k = Some rt" "rt \<noteq> []" "tokenParsed k = Some p" "exp p = JNumber e"
    "timeSkew k = Some sk" "30 \<le> e - now br + sk"
  shows "updateToken br 30 k = (Resolved False, k, [])"
  using assms by (simp add: updateToken_def isTokenExpired_def Let_def)

lemma callApi_app: "app (fst (callApi br ep setter key c)) = app c"
  by (simp add: callApi_def Let_def split: prod.splits promise.splits sum.splits)

lemma callCrossApi_app: "app (fst (callCrossApi br ep setter key c)) = app c"
  by (simp add: callCrossApi_def Let_def split: prod.splits promise.splits sum.splits)

lemma callApi_rejected:
  assumes "updateToken br 30 (kc c) = (Rejected err, k, ev)"
  shows "callApi br ep setter key c =
     (c \<lparr> kc := k,
          apiDemo := setLoading key False
                       (setter (''Error: '' @ err) (setter [] (setLoading key True (apiDemo c)))) \<rparr>,
      ev)"
  using assms by (simp add: callApi_def Let_def)

lemma callCrossApi_rejected:
  assumes "updateToken br 30 (kc c) = (Rejected err, k, ev)"
  shows "callCrossApi br ep setter key c =
     (c \<lparr> kc := k,
          crossDemo := setLoading key False
                       (setter (''Error: '' @ err) (setter [] (setLoading key True (crossDemo c)))) \<rparr>,
      ev)"
  using assms by (simp add: callCrossApi_def Let_def)

lemma callApi_resolved:
  assumes "updateToken br 30 (kc c) = (Resolved b, k, ev)"
  shows "snd (callApi br ep setter key c) = ev @ [Fetch (API_URL @ ''/api/'' @ ep) (bearer k)]
     \<and> kc (fst (callApi br ep setter key c)) = k"
  using assms by (simp add: callApi_def Let_def split: sum.splits)

lemma callCrossApi_resolved:
  assumes "updateToken br 30 (kc c) = (Resolved b, k, ev)"
  shows "snd (callCrossApi br ep setter key c)
       = ev @ [Fetch (OTHER_API_URL @ ''/api/'' @ ep) (bearer k)]
     \<and> kc (fst (callCrossApi br ep setter key c)) = k"
  using assms by (simp add: callCrossApi_def Let_def split: sum.splits)

subsection \<open>Refresh before a call\<close>

text \<open>
  Claim C7, as amended. \<^verbatim>\<open>callApi\<close> and \<^verbatim>\<open>callCrossApi\<close> call
  \<^verbatim>\<open>updateToken(30)\<close> before anything else. When fewer than 30 seconds remain before
  the token expires, a refresh request is sent first; if it succeeds the API is called
  with the new token, and if it fails no API request is sent and the text
  \<^verbatim>\<open>Error: true\<close> is given to the caller's setter. When 30 seconds or more remain,
  the API is called with the token held and no refresh is sent. Neither function
  changes the state of \<^verbatim>\<open>App\<close>: in particular \<^verbatim>\<open>authenticated\<close> stays as it was.
\<close>

theorem refresh_before_call:
  "app (fst (callApi br ep setter key c)) = app c
   \<and> app (fst (callCrossApi br ep setter key c)) = app c
   \<and> (\<forall>rt p e sk. refreshToken (kc c) = Some rt \<and> rt \<noteq> [] \<and> tokenParsed (kc c) = Some p
          \<and> exp p = JNumber e \<and> timeSkew (kc c) = Some sk \<and> e - now br + sk < 30
        \<longrightarrow> (if status (token_endpoint br rt) = 200
             then snd (callApi br ep setter key c)
                    = [RefreshRequest rt,
                       Fetch (API_URL @ ''/api/'' @ ep)
                         (''Bearer '' @ access_token (token_endpoint br rt))]
                \<and> snd (callCrossApi br ep setter key c)
                    = [RefreshRequest rt,
                       Fetch (OTHER_API_URL @ ''/api/'' @ ep)
                         (''Bearer '' @ access_token (token_endpoint br rt))]
             else snd (callApi br ep setter key c) = [RefreshRequest rt]
                \<and> snd (callCrossApi br ep setter key c) = [RefreshRequest rt]
                \<and> apiDemo (fst (callApi br ep setter key c))
                    = setLoading key False
                        (setter ''Error: true'' (setter [] (setLoading key True (apiDemo c))))
                \<and> crossDemo (fst (callCrossApi br ep setter key c))
                    = setLoading key False
                        (setter ''Error: true'' (setter [] (setLoading key True (crossDemo c))))))
   \<and> (\<forall>rt p e sk. refreshToken (kc c) = Some rt \<and> rt \<noteq> [] \<and> tokenParsed (kc c) = Some p
          \<and> exp p = JNumber e \<and> timeSkew (kc c) = Some sk \<and> 30 \<le> e - now br + sk
        \<longrightarrow> snd (callApi br ep setter key c)
              = [Fetch (API_URL @ ''/api/'' @ ep) (bearer (kc c))]
          \<and> snd (callCrossApi br ep setter key c)
              = [Fetch (OTHER_API_URL @ ''/api/'' @ ep) (bearer (kc c))]
          \<and> kc (fst (callApi br ep setter key c)) = kc c
          \<and> kc (fst (callCrossApi br ep setter key c)) = kc c)"
proof (intro conjI)
  show "app (fst (callApi br ep setter key c)) = app c" by (rule callApi_app)
  show "app (fst (callCrossApi br ep setter key c)) = app c" by (rule callCrossApi_app)
  show "\<forall>rt p e sk. refreshToken (kc c) = Some rt \<and> rt \<noteq> [] \<and> tokenParsed (kc c) = Some p
          \<and> exp p = JNumber e \<and> timeSkew (kc c) = Some sk \<and> e - now br + sk < 30
        \<longrightarrow> (if status (token_endpoint br rt) = 200
             then snd (callApi br ep setter key c)
                    = [RefreshRequest rt,
                       Fetch (API_URL @ ''/api/'' @ ep)
                         (''Bearer '' @ access_token (token_endpoint br rt))]
                \<and> snd (callCrossApi br ep setter key c)
                    = [RefreshRequest rt,
                       Fetch (OTHER_API_URL @ ''/api/'' @ ep)
                         (''Bearer '' @ access_token (token_endpoint br rt))]
             else snd (callApi br ep setter key c) = [RefreshRequest rt]
                \<and> snd (callCrossApi br ep setter key c) = [RefreshRequest rt]
                \<and> apiDemo (fst (callApi br ep setter key c))
                    = setLoading key False
                        (setter ''Error: true'' (setter [] (setLoading key True (apiDemo c))))
                \<and> crossDemo (fst (callCrossApi br ep setter key c))
                    = setLoading key False
                        (setter ''Error: true'' (setter [] (setLoading key True (crossDemo c)))))"
  proof (intro allI impI)
    fix rt p e sk
    assume a: "refreshToken (kc c) = Some rt \<and> rt \<noteq> [] \<and> tokenParsed (kc c) = Some p
          \<and> exp p = JNumber e \<and> timeSkew (kc c) = Some sk \<and> e - now br + sk < 30"
    then have u: "updateToken br 30 (kc c) =
       (if status (token_endpoint br rt) = 200
        then (Resolved True,
            (kc c) \<lparr> token := Some (access_token (token_endpoint br rt)),
                refreshToken := Some (refresh_token (token_endpoint br rt)),
                tokenParsed := Some (parsed (token_endpoint br rt)),
                timeSkew := Some (skew (token_endpoint br rt)) \<rparr>,
            [RefreshRequest rt])
        else (Rejected ''true'',
            (if status (token_endpoint br rt) = 400 then clearToken (kc c) else kc c),
            [RefreshRequest rt]))"
      by (intro updateToken_under_margin) auto
    show "if status (token_endpoint br rt) = 200
          then snd (callApi br ep setter key c)
                    = [RefreshRequest rt,
                       Fetch (API_URL @ ''/api/'' @ ep)
                         (''Bearer '' @ access_token (token_endpoint br rt))]
                \<and> snd (callCrossApi br ep setter key c)
                    = [RefreshRequest rt,
                       Fetch (OTHER_API_URL @ ''/api/'' @ ep)
                         (''Bearer '' @ access_token (token_endpoint br rt))]
          else snd (callApi br ep setter key c) = [RefreshRequest rt]
                \<and> snd (callCrossApi br ep setter key c) = [RefreshRequest rt]
                \<and> apiDemo (fst (callApi br ep setter key c))
                    = setLoading key False
                        (setter ''Error: true'' (setter [] (setLoading key True (apiDemo c))))
                \<and> crossDemo (fst (callCrossApi br ep setter key c))
                    = setLoading key False
                        (setter ''Error: true'' (setter [] (setLoading key True (crossDemo c))))"
    proof (cases "status (token_endpoint br rt) = 200")
      case True
      with u callApi_resolved [of br c True _ "[RefreshRequest rt]" ep setter key]
        callCrossApi_resolved [of br c True _ "[RefreshRequest rt]" ep setter key]
      show ?thesis by (simp add: bearer_def)
    next
      case False
      with u callApi_rejected [of br c "''true''" _ "[RefreshRequest rt]" ep setter key]
        callCrossApi_rejected [of br c "''true''" _ "[RefreshRequest rt]" ep setter key]
      show ?thesis by simp
    qed
  qed
  show "\<forall>rt p e sk. refreshToken (kc c) = Some rt \<and> rt \<noteq> [] \<and> tokenParsed (kc c) = Some p
          \<and> exp p = JNumber e \<and> timeSkew (kc c) = Some sk \<and> 30 \<le> e - now br + sk
        \<longrightarrow> snd (callApi br ep setter key c)
              = [Fetch (API_URL @ ''/api/'' @ ep) (bearer (kc c))]
          \<and> snd (callCrossApi br ep setter key c)
              = [Fetch (OTHER_API_URL @ ''/api/'' @ ep) (bearer (kc c))]
          \<and> kc (fst (callApi br ep setter key c)) = kc c
          \<and> kc (fst (callCrossApi br ep setter key c)) = kc c"
  proof (intro allI impI)
    fix rt p e sk
    assume a: "refreshToken (kc c) = Some rt \<and> rt \<noteq> [] \<and> tokenParsed (kc c) = Some p
          \<and> exp p = JNumber e \<and> timeSkew (kc c) = Some sk \<and> 30 \<le> e - now br + sk"
    then have u: "updateToken br 30 (kc c) = (Resolved False, kc c, [])"
      by (intro updateToken_within_margin) auto
    from callApi_resolved [OF u] callCrossApi_resolved [OF u]
    show "snd (callApi br ep setter key c)
              = [Fetch (API_URL @ ''/api/'' @ ep) (bearer (kc c))]
          \<and> snd (callCrossApi br ep setter key c)
              = [Fetch (OTHER_API_URL @ ''/api/'' @ ep) (bearer (kc c))]
          \<and> kc (fst (callApi br ep setter key c)) = kc c
          \<and> kc (fst (callCrossApi br ep setter key c)) = kc c"
      by simp
  qed
qed


theorem refresh_before_call_witness:
  "refreshToken (kc example_client) = Some ''refresh-1''
   \<and> (1010::int) - now (example_browser 200) + 0 < 30
   \<and> snd (callApi (example_browser 200) ''data'' setDataResult Data example_client)
      = [RefreshRequest ''refresh-1'',
         Fetch ''http://localhost:4001/api/data'' ''Bearer new-token'']
   \<and> snd (callCrossApi (example_browser 503) ''data'' setDataResult Data example_client)
      = [RefreshRequest ''refresh-1'']
   \<and> dataResult (crossDemo (fst (callCrossApi (example_browser 503) ''data'' setDataResult Data
                                    example_client)))
      = ''Error: true''"
proof -
  let ?p = "\<lparr> iss = JString ''http://localhost:8081/realms/eu-realm'',
               exp = JNumber 1010, nbf = JUndefined,
               preferred_username = JString ''alice'' \<rparr>"
  have h: "refreshToken (kc example_client) = Some ''refresh-1'' \<and> ''refresh-1'' \<noteq> []
       \<and> tokenParsed (kc example_client) = Some ?p \<and> exp ?p = JNumber 1010
       \<and> timeSkew (kc example_client) = Some 0"
    by (simp add: example_client_def)
  have m: "(1010::int) - now (example_browser s) + 0 < 30" for s
    by (simp add: example_browser_def)
  have ok: "status (token_endpoint (example_browser 200) ''refresh-1'') = 200"
    and ko: "status (token_endpoint (example_browser 503) ''refresh-1'') \<noteq> 200"
    and tk: "access_token (token_endpoint (example_browser 200) ''refresh-1'') = ''new-token''"
    by (simp_all add: example_browser_def)
  from refresh_before_call [of "example_browser 200" "''data''" setDataResult Data example_client]
    h m [of 200] ok
  have a: "snd (callApi (example_browser 200) ''data'' setDataResult Data example_client)
      = [RefreshRequest ''refresh-1'',
         Fetch (API_URL @ ''/api/'' @ ''data'')
           (''Bearer '' @ access_token (token_endpoint (example_browser 200) ''refresh-1''))]"
    by (metis (no_types, lifting))
  from refresh_before_call [of "example_browser 503" "''data''" setDataResult Data example_client]
    h m [of 503] ko
  have b: "snd (callCrossApi (example_browser 503) ''data'' setDataResult Data example_client)
        = [RefreshRequest ''refresh-1'']
      \<and> crossDemo (fst (callCrossApi (example_browser 503) ''data'' setDataResult Data
                          example_client))
        = setLoading Data False
            (setDataResult ''Error: true''
               (setDataResult [] (setLoading Data True (crossDemo example_client))))"
    by (metis (no_types, lifting))
  from a tk have a': "snd (callApi (example_browser 200) ''data'' setDataResult Data example_client)
      = [RefreshRequest ''refresh-1'',
         Fetch ''http://localhost:4001/api/data'' ''Bearer new-token'']"
    by (simp add: API_URL_def)
  from b have b': "dataResult (crossDemo (fst (callCrossApi (example_browser 503) ''data''
                                    setDataResult Data example_client)))
      = ''Error: true''"
    by (simp add: setLoading_def setDataResult_def)
  from h m [of 200] a' b b' show ?thesis by simp
qed

text \<open>
  The claim as it was stated fails: after a refresh that failed with status 503 the
  application is still \<^verbatim>\<open>authenticated\<close> and the adapter still holds the old
  token; after one that failed with status 400 the adapter has dropped its tokens and
  the application is still \<^verbatim>\<open>authenticated\<close>.
\<close>

theorem failed_refresh_keeps_session:
  "callApi (example_browser 503) ''data'' setDataResult Data example_client
     = (example_client
          \<lparr> apiDemo := (apiDemo example_client) \<lparr> dataResult := ''Error: true'' \<rparr> \<rparr>,
        [RefreshRequest ''refresh-1''])
   \<and> authenticated (app (fst (callApi (example_browser 503) ''data'' setDataResult Data
                                 example_client)))
   \<and> token (kc (fst (callApi (example_browser 503) ''data'' setDataResult Data example_client)))
      = Some ''old-token''
   \<and> authenticated (app (fst (callApi (example_browser 400) ''data'' setDataResult Data
                                 example_client)))"
  by (simp add: callApi_def updateToken_def isTokenExpired_def clearToken_def setLoading_def
      setDataResult_def example_client_def example_browser_def Let_def)

subsection \<open>The brokered redirect\<close>

text \<open>
  Claim C8, as amended. On a load of the page, when \<^verbatim>\<open>keycloak.init\<close> resolves
  unauthenticated and the query string has an \<^verbatim>\<open>idp_hint\<close> parameter with a
  non-empty value, the application calls \<^verbatim>\<open>keycloak.login\<close> with that value as
  \<^verbatim>\<open>idpHint\<close> and nothing else. It calls no login when the parameter is absent or
  empty, when \<^verbatim>\<open>init\<close> resolves authenticated, or when \<^verbatim>\<open>init\<close> rejects. What a
  load does depends on the outcome of \<^verbatim>\<open>init\<close> and on the value of that one
  parameter only, so that two loads of the same link with the same outcome do the same.
\<close>

theorem brokered_login_on_load:
  "(\<forall>h. URLSearchParams_get search ''idp_hint'' = Some h \<and> h \<noteq> []
        \<longrightarrow> App_useEffect initial_app (InitResolved False) search
            = (\<lparr> authenticated = False, initialized = True, initCalled = True \<rparr>,
               [KeycloakInit, KeycloakLogin \<lparr> idpHint = Some h, loginHint = None \<rparr>]))
   \<and> (URLSearchParams_get search ''idp_hint'' = None
        \<or> URLSearchParams_get search ''idp_hint'' = Some []
        \<longrightarrow> App_useEffect initial_app (InitResolved False) search
            = (\<lparr> authenticated = False, initialized = True, initCalled = True \<rparr>,
               [KeycloakInit]))
   \<and> App_useEffect initial_app (InitResolved True) search
        = (\<lparr> authenticated = True, initialized = True, initCalled = True \<rparr>, [KeycloakInit])
   \<and> App_useEffect initial_app (InitRejected e) search
        = (\<lparr> authenticated = False, initialized = True, initCalled = True \<rparr>,
           [KeycloakInit, ConsoleError e])
   \<and> (\<forall>search'. URLSearchParams_get search' ''idp_hint''
                    = URLSearchParams_get search ''idp_hint''
        \<longrightarrow> App_useEffect initial_app r search' = App_useEffect initial_app r search)"
  by (auto simp: App_useEffect_def initial_app_def split: option.splits init_result.splits)

theorem brokered_login_on_load_witness:
  "URLSearchParams_get [(''idp_hint'', ''us-keycloak-idp'')] ''idp_hint''
      = Some ''us-keycloak-idp''
   \<and> App_useEffect initial_app (InitResolved False) [(''idp_hint'', ''us-keycloak-idp'')]
      = (\<lparr> authenticated = False, initialized = True, initCalled = True \<rparr>,
         [KeycloakInit,
          KeycloakLogin \<lparr> idpHint = Some ''us-keycloak-idp'', loginHint = None \<rparr>])
   \<and> App_useEffect initial_app (InitResolved False)
        [(''utm'', ''mail''), (''idp_hint'', ''us-keycloak-idp'')]
      = App_useEffect initial_app (InitResolved False) [(''idp_hint'', ''us-keycloak-idp'')]"
proof -
  have g: "URLSearchParams_get [(''idp_hint'', ''us-keycloak-idp'')] ''idp_hint''
      = Some ''us-keycloak-idp''"
    by (simp add: URLSearchParams_get_def)
  have g': "URLSearchParams_get [(''utm'', ''mail''), (''idp_hint'', ''us-keycloak-idp'')]
        ''idp_hint''
      = URLSearchParams_get [(''idp_hint'', ''us-keycloak-idp'')] ''idp_hint''"
    by (simp add: URLSearchParams_get_def)
  have n: "''us-keycloak-idp'' \<noteq> []" by simp
  from brokered_login_on_load [of "[(''idp_hint'', ''us-keycloak-idp'')]"] g n
  have a: "App_useEffect initial_app (InitResolved False) [(''idp_hint'', ''us-keycloak-idp'')]
      = (\<lparr> authenticated = False, initialized = True, initCalled = True \<rparr>,
         [KeycloakInit,
          KeycloakLogin \<lparr> idpHint = Some ''us-keycloak-idp'', loginHint = None \<rparr>])"
    by blast
  from brokered_login_on_load [of "[(''idp_hint'', ''us-keycloak-idp'')]"] g'
  have b: "App_useEffect initial_app (InitResolved False)
        [(''utm'', ''mail''), (''idp_hint'', ''us-keycloak-idp'')]
      = App_useEffect initial_app (InitResolved False) [(''idp_hint'', ''us-keycloak-idp'')]"
    by blast
  from g a b show ?thesis by blast
qed

text \<open>
  The claim as it was stated fails in two cases: the parameter is present with an empty
  value, and \<^verbatim>\<open>init\<close> rejects. In both the application ends unauthenticated and
  calls no login.
\<close>

theorem hint_without_login:
  "URLSearchParams_get [(''idp_hint'', [])] ''idp_hint'' = Some []
   \<and> App_useEffect initial_app (InitResolved False) [(''idp_hint'', [])]
      = (\<lparr> authenticated = False, initialized = True, initCalled = True \<rparr>, [KeycloakInit])
   \<and> URLSearchParams_get [(''idp_hint'', ''us-keycloak-idp'')] ''idp_hint''
      = Some ''us-keycloak-idp''
   \<and> App_useEffect initial_app (InitRejected ''timeout'') [(''idp_hint'', ''us-keycloak-idp'')]
      = (\<lparr> authenticated = False, initialized = True, initCalled = True \<rparr>,
         [KeycloakInit, ConsoleError ''timeout''])"
  by (simp add: App_useEffect_def initial_app_def URLSearchParams_get_def)

end
